theory Spec2Isabelle
  imports Main "HOL-Library.Word"
begin

unbundle bit_operations_syntax

section \<open>Thumbnail upload and retrieval handlers (src/api/thumbnails.ts)\<close>

text \<open>
  The two handlers of \<^verbatim>\<open>thumbnails.ts\<close> are embedded as functions from the program
  state to an outcome and the state afterwards. An exception of the TypeScript code is the
  \<open>Inl\<close> branch of the outcome; the state is returned in that case too, because a
  \<^verbatim>\<open>throw\<close> does not undo the writes that happened before it. The handlers are
  \<^verbatim>\<open>async\<close>, yet each invocation is modelled as running to completion: the
  development is about sequential invocations.
\<close>

subsection \<open>Data\<close>

type_synonym byte = "8 word"

text \<open>\<^verbatim>\<open>type Thumbnail = { data: ArrayBuffer; mediaType: string }\<close>\<close>

record Thumbnail =
  data :: "byte list"
  mediaType :: string

text \<open>
  The video record of the store collaborator. The handlers read \<^verbatim>\<open>userID\<close> and
  write \<^verbatim>\<open>thumbnailURL\<close>; \<^verbatim>\<open>id\<close> and \<^verbatim>\<open>title\<close> are the other
  fields the tests give it (\<^verbatim>\<open>thumbnailURL: null\<close> is \<open>None\<close>).
\<close>

record Video =
  video_id :: string
  title :: string
  userID :: string
  thumbnailURL :: "string option"

text \<open>
  The exception classes. The first three are imported from \<^verbatim>\<open>./errors\<close> and thrown
  by the handlers themselves. The others are thrown by what the handlers call and pass
  through untouched: \<open>UserNotAuthenticatedError\<close> by the auth module, \<open>StoreError\<close>
  by the video store, \<open>TypeError\<close> by \<^verbatim>\<open>req.formData()\<close> on a body that is not
  form data.
\<close>

datatype error =
    BadRequestError string
  | NotFoundError string
  | UserForbiddenError string
  | UserNotAuthenticatedError string
  | StoreError string
  | TypeError string

text \<open>
  A \<^verbatim>\<open>File\<close> part of a form: its bytes and the media type the client declared.
  \<^verbatim>\<open>thumbnail.size\<close> is the number of bytes, \<^verbatim>\<open>thumbnail.arrayBuffer()\<close>
  yields them.
\<close>

record File =
  file_name :: string
  file_type :: string
  file_data :: "byte list"

definition file_size :: "File \<Rightarrow> nat" where
  "file_size f = length (file_data f)"

definition arrayBuffer :: "File \<Rightarrow> byte list" where
  "arrayBuffer f = file_data f"

text \<open>
  \<^verbatim>\<open>FormDataEntryValue\<close> is a string or a file; \<^verbatim>\<open>formData.get(name)\<close> is the
  first entry of that name, or \<^verbatim>\<open>null\<close>.
\<close>

datatype FormDataEntryValue = FString string | FFile File

type_synonym FormData = "(string \<times> FormDataEntryValue) list"

definition formData_get :: "FormData \<Rightarrow> string \<Rightarrow> FormDataEntryValue option" where
  "formData_get fd name = map_of fd name"

text \<open>
  The request, as far as the handlers look at it: the verb, the route parameter
  \<^verbatim>\<open>videoId\<close> (typed \<^verbatim>\<open>videoId?: string\<close>), the headers, and what
  \<^verbatim>\<open>await req.formData()\<close> gives: the decoded form, or the message of the exception
  it throws.
\<close>

record BunRequest =
  req_method :: string
  params_videoId :: "string option"
  req_headers :: "(string \<times> string) list"
  req_formData :: "string + FormData"

text \<open>
  \<^verbatim>\<open>ApiConfig\<close> is declared in \<^verbatim>\<open>../config\<close>. The handlers use
  \<^verbatim>\<open>cfg.jwtSecret\<close>, \<^verbatim>\<open>cfg.port\<close> and \<^verbatim>\<open>cfg.db\<close>. The port is a
  number in the tests (\<^verbatim>\<open>port: 8091\<close>) and may be a string read from the
  environment; the template literal renders either as text. The database behind
  \<^verbatim>\<open>cfg.db\<close> changes over time, so it is a component of the state below and not
  of this record.
\<close>

datatype port = PortNumber nat | PortString string

record ApiConfig =
  jwtSecret :: string
  port :: port

definition digit_char :: "nat \<Rightarrow> char" where
  "digit_char d =
     (if d = 0 then CHR ''0'' else if d = 1 then CHR ''1'' else if d = 2 then CHR ''2''
      else if d = 3 then CHR ''3'' else if d = 4 then CHR ''4'' else if d = 5 then CHR ''5''
      else if d = 6 then CHR ''6'' else if d = 7 then CHR ''7'' else if d = 8 then CHR ''8''
      else CHR ''9'')"

fun decimal :: "nat \<Rightarrow> string" where
  "decimal n = (if n < 10 then [digit_char n] else decimal (n div 10) @ [digit_char (n mod 10)])"

fun port_text :: "port \<Rightarrow> string" where
  "port_text (PortNumber n) = decimal n"
| "port_text (PortString p) = p"

text \<open>
  A response: \<^verbatim>\<open>new Response(bytes, { headers })\<close> has status 200 and the two
  headers in the order written.
\<close>

datatype Body = Bytes "byte list" | Json Video

record Response =
  status :: nat
  resp_headers :: "(string \<times> string) list"
  body :: Body

definition header :: "Response \<Rightarrow> string \<Rightarrow> string option" where
  "header r name = map_of (resp_headers r) name"

text \<open>
  Modelled from the spec: \<^verbatim>\<open>respondWithJSON\<close> of \<^verbatim>\<open>./json\<close>, which is not
  among the sources. The spec has it answer with the given status and the record
  serialized as the body; the serialization is kept abstract as \<open>Json\<close>.
\<close>

definition respondWithJSON :: "nat \<Rightarrow> Video \<Rightarrow> Response" where
  "respondWithJSON code payload =
     \<lparr>status = code,
      resp_headers = [(''Content-Type'', ''application/json'')],
      body = Json payload\<rparr>"

subsection \<open>Collaborators\<close>

text \<open>
  \<^verbatim>\<open>getBearerToken\<close>, \<^verbatim>\<open>validateJWT\<close> (module \<^verbatim>\<open>../auth\<close>),
  \<^verbatim>\<open>getVideo\<close> and \<^verbatim>\<open>updateVideo\<close> (module \<^verbatim>\<open>../db/videos\<close>) are
  imported, so the handlers take them as parameters. The auth functions return a value or
  throw any exception. The store functions work on a database of any type \<open>'db\<close>:
  \<open>getVideo\<close> reads it and yields a record, \<^verbatim>\<open>undefined\<close> (\<open>None\<close>) or a
  store-level failure; \<open>updateVideo\<close> yields the database afterwards and, when it
  throws, the failure.
\<close>

record 'db collaborators =
  getBearerToken :: "(string \<times> string) list \<Rightarrow> error + string option"
  validateJWT :: "string option \<Rightarrow> string \<Rightarrow> error + string"
  getVideo :: "'db \<Rightarrow> string \<Rightarrow> string + Video option"
  updateVideo :: "'db \<Rightarrow> Video \<Rightarrow> string option \<times> 'db"

subsection \<open>State\<close>

text \<open>
  \<^verbatim>\<open>const videoThumbnails: Map<string, Thumbnail> = new Map()\<close> is module-level
  state; the database is the other mutable component.
\<close>

record 'db state =
  videoThumbnails :: "string \<rightharpoonup> Thumbnail"
  db :: 'db

text \<open>\<^verbatim>\<open>const MAX_UPLOAD_SIZE = 10 << 20\<close>: a shift on 32-bit signed integers.\<close>

definition MAX_UPLOAD_SIZE :: nat where
  "MAX_UPLOAD_SIZE = nat (sint (push_bit 20 (10 :: 32 word)))"

text \<open>\<^verbatim>\<open>s.startsWith(p)\<close>\<close>

definition startsWith :: "string \<Rightarrow> string \<Rightarrow> bool" where
  "startsWith s p = (take (length p) s = p)"

text \<open>
  \<^verbatim>\<open>`http://localhost:${cfg.port}/upload/thumbnails/${videoId}`\<close>
\<close>

definition thumbnailURL_for :: "ApiConfig \<Rightarrow> string \<Rightarrow> string" where
  "thumbnailURL_for cfg videoId =
     ''http://localhost:'' @ port_text (port cfg) @ ''/upload/thumbnails/'' @ videoId"

subsection \<open>handlerGetThumbnail\<close>

definition handlerGetThumbnail ::
  "'db collaborators \<Rightarrow> ApiConfig \<Rightarrow> BunRequest \<Rightarrow> 'db state \<Rightarrow> (error + Response) \<times> 'db state"
where
  "handlerGetThumbnail c cfg req s =
     (case params_videoId req of
        None \<Rightarrow> (Inl (BadRequestError ''Invalid video ID''), s)
      | Some videoId \<Rightarrow>
          if videoId = [] then (Inl (BadRequestError ''Invalid video ID''), s)
          else
            (case getVideo c (db s) videoId of
               Inl e \<Rightarrow> (Inl (StoreError e), s)
             | Inr None \<Rightarrow> (Inl (NotFoundError ''Couldn't find video''), s)
             | Inr (Some video) \<Rightarrow>
                 (case videoThumbnails s videoId of
                    None \<Rightarrow> (Inl (NotFoundError ''Thumbnail not found''), s)
                  | Some thumbnail \<Rightarrow>
                      (Inr \<lparr>status = 200,
                            resp_headers =
                              [(''Content-Type'', mediaType thumbnail),
                               (''Cache-Control'', ''no-store'')],
                            body = Bytes (data thumbnail)\<rparr>, s))))"

subsection \<open>handlerUploadThumbnail\<close>

text \<open>
  Steps 6 to 10 of the POST branch, reached once every check has passed: the map is
  written first, then the record is changed and handed to \<open>updateVideo\<close>. When
  \<open>updateVideo\<close> throws, the exception leaves the handler; the map keeps the new entry.
\<close>

definition storeThumbnail ::
  "'db collaborators \<Rightarrow> ApiConfig \<Rightarrow> string \<Rightarrow> Video \<Rightarrow> File \<Rightarrow> 'db state
    \<Rightarrow> (error + Response) \<times> 'db state"
where
  "storeThumbnail c cfg videoId video thumbnail s =
     (let bytes = arrayBuffer thumbnail;
          s1 = s\<lparr>videoThumbnails :=
                  (videoThumbnails s)(videoId \<mapsto> \<lparr>data = bytes, mediaType = file_type thumbnail\<rparr>)\<rparr>;
          video' = video\<lparr>thumbnailURL := Some (thumbnailURL_for cfg videoId)\<rparr>
      in case updateVideo c (db s1) video' of
           (Some e, db') \<Rightarrow> (Inl (StoreError e), s1\<lparr>db := db'\<rparr>)
         | (None, db') \<Rightarrow> (Inr (respondWithJSON 200 video'), s1\<lparr>db := db'\<rparr>))"

text \<open>The body of \<^verbatim>\<open>if (req.method === "POST") { ... }\<close>.\<close>

definition postBranch ::
  "'db collaborators \<Rightarrow> ApiConfig \<Rightarrow> BunRequest \<Rightarrow> string \<Rightarrow> Video \<Rightarrow> 'db state
    \<Rightarrow> (error + Response) \<times> 'db state"
where
  "postBranch c cfg req videoId video s =
     (case req_formData req of
        Inl e \<Rightarrow> (Inl (TypeError e), s)
      | Inr formData \<Rightarrow>
          (case formData_get formData ''thumbnail'' of
             None \<Rightarrow> (Inl (BadRequestError ''Missing thumbnail''), s)
           | Some (FString str) \<Rightarrow>
               if str = [] then (Inl (BadRequestError ''Missing thumbnail''), s)
               else (Inl (BadRequestError ''Thumbnail must be a file''), s)
           | Some (FFile thumbnail) \<Rightarrow>
               if file_size thumbnail > MAX_UPLOAD_SIZE
               then (Inl (BadRequestError ''File size exceeds 10MB limit''), s)
               else if \<not> startsWith (file_type thumbnail) ''image/''
               then (Inl (BadRequestError ''Thumbnail must be an image file''), s)
               else storeThumbnail c cfg videoId video thumbnail s))"

text \<open>
  The handler itself, down to the test of the verb. The call of \<^verbatim>\<open>console.log\<close>
  after the authentication writes to the console only and has no counterpart here.
\<close>

definition handlerUploadThumbnail ::
  "'db collaborators \<Rightarrow> ApiConfig \<Rightarrow> BunRequest \<Rightarrow> 'db state \<Rightarrow> (error + Response) \<times> 'db state"
where
  "handlerUploadThumbnail c cfg req s =
     (case params_videoId req of
        None \<Rightarrow> (Inl (BadRequestError ''Invalid video ID''), s)
      | Some videoId \<Rightarrow>
          if videoId = [] then (Inl (BadRequestError ''Invalid video ID''), s)
          else
            (case getBearerToken c (req_headers req) of
               Inl e \<Rightarrow> (Inl e, s)
             | Inr token \<Rightarrow>
                 (case validateJWT c token (jwtSecret cfg) of
                    Inl e \<Rightarrow> (Inl e, s)
                  | Inr uid \<Rightarrow>
                      (case getVideo c (db s) videoId of
                         Inl e \<Rightarrow> (Inl (StoreError e), s)
                       | Inr None \<Rightarrow> (Inl (NotFoundError ''Couldn't find video''), s)
                       | Inr (Some video) \<Rightarrow>
                           if userID video \<noteq> uid
                           then (Inl (UserForbiddenError ''You don't own this video''), s)
                           else if req_method req = ''POST''
                           then postBranch c cfg req videoId video s
                           else (Inl (BadRequestError ''Method not allowed''), s)))))"

subsection \<open>Test doubles\<close>

text \<open>
  Stand-ins for the imported modules, as the tests install them with
  \<^verbatim>\<open>mock.module\<close>: the token is the \<^verbatim>\<open>Authorization\<close> header, two tokens
  resolve to the users \<open>u1\<close> and \<open>u2\<close>, and the store is a finite map from
  identifiers to records. \<open>failingStore\<close> is the same with an \<open>updateVideo\<close> that
  throws and leaves the database as it was.
\<close>

definition mockCollab :: "(string \<rightharpoonup> Video) collaborators" where
  "mockCollab =
     \<lparr>getBearerToken = (\<lambda>h. Inr (map_of h ''Authorization'')),
      validateJWT = (\<lambda>token secret.
         case token of
           None \<Rightarrow> Inl (UserNotAuthenticatedError ''Invalid token'')
         | Some t \<Rightarrow>
             if t = ''Bearer u1-token'' then Inr ''u1''
             else if t = ''Bearer u2-token'' then Inr ''u2''
             else Inl (UserNotAuthenticatedError ''Invalid token'')),
      getVideo = (\<lambda>d i. Inr (d i)),
      updateVideo = (\<lambda>d v. (None, d(video_id v \<mapsto> v)))\<rparr>"

definition failingStore :: "(string \<rightharpoonup> Video) collaborators" where
  "failingStore = mockCollab\<lparr>updateVideo := (\<lambda>d v. (Some ''database is locked'', d))\<rparr>"

definition mockConfig :: ApiConfig where
  "mockConfig = \<lparr>jwtSecret = ''test-secret'', port = PortNumber 8091\<rparr>"

definition vid1 :: Video where
  "vid1 = \<lparr>video_id = ''vid-1'', title = ''Test Video'', userID = ''u1'', thumbnailURL = None\<rparr>"

definition state0 :: "(string \<rightharpoonup> Video) state" where
  "state0 = \<lparr>videoThumbnails = Map.empty, db = [''vid-1'' \<mapsto> vid1]\<rparr>"

definition createMockRequest :: "string \<Rightarrow> string \<Rightarrow> File option \<Rightarrow> string \<Rightarrow> BunRequest" where
  "createMockRequest videoId m file token =
     \<lparr>req_method = m,
      params_videoId = Some videoId,
      req_headers = [(''Authorization'', ''Bearer '' @ token)],
      req_formData = Inr (case file of None \<Rightarrow> [] | Some f \<Rightarrow> [(''thumbnail'', FFile f)])\<rparr>"

definition createImageFile :: "byte list \<Rightarrow> File" where
  "createImageFile bytes = \<lparr>file_name = ''test.png'', file_type = ''image/png'', file_data = bytes\<rparr>"

definition createPdfFile :: "byte list \<Rightarrow> File" where
  "createPdfFile bytes = \<lparr>file_name = ''doc.pdf'', file_type = ''application/pdf'', file_data = bytes\<rparr>"

section \<open>Properties\<close>

subsection \<open>The steps of the upload handler\<close>

lemma MAX_UPLOAD_SIZE_value: "MAX_UPLOAD_SIZE = 10 * 2 ^ 20"
  by (simp add: MAX_UPLOAD_SIZE_def)

lemma upload_invalid_id:
  assumes "params_videoId req = None \<or> params_videoId req = Some []"
  shows "handlerUploadThumbnail c cfg req s = (Inl (BadRequestError ''Invalid video ID''), s)"
  using assms by (auto simp: handlerUploadThumbnail_def)

lemma upload_owner_step:
  assumes "params_videoId req = Some vid" and "vid \<noteq> []"
    and "getBearerToken c (req_headers req) = Inr tok"
    and "validateJWT c tok (jwtSecret cfg) = Inr uid"
    and "getVideo c (db s) vid = Inr (Some v)"
  shows "handlerUploadThumbnail c cfg req s =
           (if userID v \<noteq> uid then (Inl (UserForbiddenError ''You don't own this video''), s)
            else if req_method req = ''POST'' then postBranch c cfg req vid v s
            else (Inl (BadRequestError ''Method not allowed''), s))"
  using assms by (simp add: handlerUploadThumbnail_def)

lemma postBranch_file:
  assumes "req_formData req = Inr fd" and "formData_get fd ''thumbnail'' = Some (FFile f)"
  shows "postBranch c cfg req vid v s =
           (if file_size f > MAX_UPLOAD_SIZE
            then (Inl (BadRequestError ''File size exceeds 10MB limit''), s)
            else if \<not> startsWith (file_type f) ''image/''
            then (Inl (BadRequestError ''Thumbnail must be an image file''), s)
            else storeThumbnail c cfg vid v f s)"
  using assms by (simp add: postBranch_def)

lemma storeThumbnail_thumbnails:
  "videoThumbnails (snd (storeThumbnail c cfg vid v f s)) =
     (videoThumbnails s)(vid \<mapsto> \<lparr>data = file_data f, mediaType = file_type f\<rparr>)"
  by (simp add: storeThumbnail_def arrayBuffer_def Let_def split: prod.splits option.splits)

lemma storeThumbnail_result:
  "storeThumbnail c cfg vid v f s =
     (let v' = v\<lparr>thumbnailURL := Some (thumbnailURL_for cfg vid)\<rparr>;
          m' = (videoThumbnails s)(vid \<mapsto> \<lparr>data = file_data f, mediaType = file_type f\<rparr>)
      in (case fst (updateVideo c (db s) v') of
            Some e \<Rightarrow> Inl (StoreError e)
          | None \<Rightarrow> Inr (respondWithJSON 200 v'),
          \<lparr>videoThumbnails = m', db = snd (updateVideo c (db s) v')\<rparr>))"
  by (simp add: storeThumbnail_def arrayBuffer_def Let_def split: prod.splits option.splits)

lemma get_found:
  assumes "params_videoId req = Some vid" and "vid \<noteq> []"
    and "getVideo c (db s) vid = Inr (Some v)"
    and "videoThumbnails s vid = Some t"
  shows "handlerGetThumbnail c cfg req s =
           (Inr \<lparr>status = 200,
                 resp_headers = [(''Content-Type'', mediaType t), (''Cache-Control'', ''no-store'')],
                 body = Bytes (data t)\<rparr>, s)"
  using assms by (simp add: handlerGetThumbnail_def)

lemma get_success_shape:
  assumes "handlerGetThumbnail c cfg req s = (Inr resp, s')"
  shows "\<exists>vid t. params_videoId req = Some vid \<and> videoThumbnails s vid = Some t \<and> s' = s \<and>
           resp = \<lparr>status = 200,
                   resp_headers = [(''Content-Type'', mediaType t), (''Cache-Control'', ''no-store'')],
                   body = Bytes (data t)\<rparr>"
  using assms
  by (auto simp: handlerGetThumbnail_def split: option.splits if_splits sum.splits)

lemma get_state: "snd (handlerGetThumbnail c cfg req s) = s"
  by (simp add: handlerGetThumbnail_def split: option.splits sum.splits)

lemma upload_stored_step:
  assumes "params_videoId req = Some vid" and "vid \<noteq> []"
    and "getBearerToken c (req_headers req) = Inr tok"
    and "validateJWT c tok (jwtSecret cfg) = Inr uid"
    and "getVideo c (db s) vid = Inr (Some v)" and "userID v = uid"
    and "req_method req = ''POST''"
    and "req_formData req = Inr fd" and "formData_get fd ''thumbnail'' = Some (FFile f)"
  shows "handlerUploadThumbnail c cfg req s =
           (if file_size f > MAX_UPLOAD_SIZE
            then (Inl (BadRequestError ''File size exceeds 10MB limit''), s)
            else if \<not> startsWith (file_type f) ''image/''
            then (Inl (BadRequestError ''Thumbnail must be an image file''), s)
            else storeThumbnail c cfg vid v f s)"
  by (simp add: upload_owner_step [OF assms(1-5)] assms(6,7) postBranch_file [OF assms(8,9)])

lemma upload_success_shape:
  assumes "handlerUploadThumbnail c cfg req s = (Inr resp, s')"
  shows "\<exists>vid v f fd. params_videoId req = Some vid \<and> vid \<noteq> [] \<and>
           getVideo c (db s) vid = Inr (Some v) \<and>
           req_formData req = Inr fd \<and> formData_get fd ''thumbnail'' = Some (FFile f) \<and>
           (Inr resp, s') = storeThumbnail c cfg vid v f s"
  using assms
  by (auto simp: handlerUploadThumbnail_def postBranch_def
      split: option.splits if_splits sum.splits FormDataEntryValue.splits)

lemma upload_thumbnails_frame:
  assumes "params_videoId req \<noteq> Some B"
  shows "videoThumbnails (snd (handlerUploadThumbnail c cfg req s)) B = videoThumbnails s B"
  using assms
  by (auto simp: handlerUploadThumbnail_def postBranch_def storeThumbnail_thumbnails
      split: option.splits if_splits sum.splits FormDataEntryValue.splits)

subsection \<open>Evaluation on the test doubles\<close>

lemmas model_defs =
  handlerUploadThumbnail_def handlerGetThumbnail_def postBranch_def storeThumbnail_def
  formData_get_def file_size_def arrayBuffer_def startsWith_def thumbnailURL_for_def
  respondWithJSON_def header_def MAX_UPLOAD_SIZE_value digit_char_def Let_def

lemmas mock_defs =
  mockCollab_def failingStore_def mockConfig_def vid1_def state0_def createMockRequest_def
  createImageFile_def createPdfFile_def

subsection \<open>Upload, then retrieve\<close>

text \<open>
  Claim C1. A POST upload with a non-empty video identifier, by the authenticated owner of
  an existing video, whose form has a file \<open>f\<close> under \<open>thumbnail\<close> of at most
  \<open>10 * 2^20\<close> bytes and a declared type starting with \<open>image/\<close>, succeeds with
  status 200 when the store accepts the updated record; a retrieval for the same identifier
  afterwards, the store still knowing the video, succeeds with exactly the bytes of \<open>f\<close>
  (\<open>file_size f\<close> of them) and the declared type of \<open>f\<close> as \<open>Content-Type\<close>.
  Every successful retrieval, of any state, carries \<open>Cache-Control: no-store\<close>.
\<close>

theorem upload_then_retrieve:
  assumes vid: "params_videoId req = Some vid" "vid \<noteq> []"
    and auth: "getBearerToken c (req_headers req) = Inr tok"
              "validateJWT c tok (jwtSecret cfg) = Inr uid"
    and video: "getVideo c (db s) vid = Inr (Some v)" "userID v = uid"
    and post: "req_method req = ''POST''"
    and form: "req_formData req = Inr fd" "formData_get fd ''thumbnail'' = Some (FFile f)"
    and size: "file_size f \<le> 10 * 2 ^ 20"
    and type: "startsWith (file_type f) ''image/''"
    and persist:
      "fst (updateVideo c (db s) (v\<lparr>thumbnailURL := Some (thumbnailURL_for cfg vid)\<rparr>)) = None"
    and up: "handlerUploadThumbnail c cfg req s = (r, s')"
    and get: "params_videoId greq = Some vid" "getVideo c (db s') vid = Inr (Some v')"
  shows "(\<exists>resp. r = Inr resp \<and> status resp = 200) \<and>
         handlerGetThumbnail c cfg greq s' =
           (Inr \<lparr>status = 200,
                 resp_headers = [(''Content-Type'', file_type f), (''Cache-Control'', ''no-store'')],
                 body = Bytes (file_data f)\<rparr>, s') \<and>
         length (file_data f) = file_size f \<and>
         (\<forall>c2 cfg2 req2 s2 resp2.
            fst (handlerGetThumbnail c2 cfg2 req2 (s2 :: 'db state)) = Inr resp2
              \<longrightarrow> header resp2 ''Cache-Control'' = Some ''no-store'')"
proof -
  have step: "handlerUploadThumbnail c cfg req s = storeThumbnail c cfg vid v f s"
    using size type
    by (simp add: upload_stored_step [OF vid auth video post form] MAX_UPLOAD_SIZE_value)
  have r: "r = Inr (respondWithJSON 200 (v\<lparr>thumbnailURL := Some (thumbnailURL_for cfg vid)\<rparr>))"
    and s': "videoThumbnails s' vid = Some \<lparr>data = file_data f, mediaType = file_type f\<rparr>"
    using step up persist by (auto simp: storeThumbnail_result Let_def)
  have g: "handlerGetThumbnail c cfg greq s' =
           (Inr \<lparr>status = 200,
                 resp_headers = [(''Content-Type'', file_type f), (''Cache-Control'', ''no-store'')],
                 body = Bytes (file_data f)\<rparr>, s')"
    using get_found [OF get(1) vid(2) get(2) s'] by simp
  have nc: "header resp2 ''Cache-Control'' = Some ''no-store''"
    if "fst (handlerGetThumbnail c2 cfg2 req2 (s2 :: 'db state)) = Inr resp2"
    for c2 cfg2 req2 s2 resp2
  proof -
    from that have "handlerGetThumbnail c2 cfg2 req2 s2 =
        (Inr resp2, snd (handlerGetThumbnail c2 cfg2 req2 s2))"
      by (metis prod.collapse)
    from get_success_shape [OF this] show ?thesis by (auto simp: header_def)
  qed
  show ?thesis using r g nc by (simp add: respondWithJSON_def file_size_def)
qed

theorem upload_then_retrieve_witness:
  "fst (handlerUploadThumbnail mockCollab mockConfig
          (createMockRequest ''vid-1'' ''POST'' (Some (createImageFile (replicate 1024 0))) ''u1-token'')
          state0)
     = Inr (respondWithJSON 200
             (vid1\<lparr>thumbnailURL := Some ''http://localhost:8091/upload/thumbnails/vid-1''\<rparr>))
   \<and> fst (handlerGetThumbnail mockCollab mockConfig (createMockRequest ''vid-1'' ''GET'' None [])
        (snd (handlerUploadThumbnail mockCollab mockConfig
          (createMockRequest ''vid-1'' ''POST'' (Some (createImageFile (replicate 1024 0))) ''u1-token'')
          state0)))
     = Inr \<lparr>status = 200,
            resp_headers = [(''Content-Type'', ''image/png''), (''Cache-Control'', ''no-store'')],
            body = Bytes (replicate 1024 0)\<rparr>
   \<and> length (replicate 1024 (0 :: byte)) = 1024"
proof -
  let ?req = "createMockRequest ''vid-1'' ''POST'' (Some (createImageFile (replicate 1024 0))) ''u1-token''"
  let ?greq = "createMockRequest ''vid-1'' ''GET'' None []"
  let ?f = "createImageFile (replicate 1024 0)"
  let ?v' = "vid1\<lparr>thumbnailURL := Some (thumbnailURL_for mockConfig ''vid-1'')\<rparr>"
  let ?out = "handlerUploadThumbnail mockCollab mockConfig ?req state0"
  have vid: "params_videoId ?req = Some ''vid-1''" "''vid-1'' \<noteq> []"
    by (simp_all add: mock_defs)
  have auth: "getBearerToken mockCollab (req_headers ?req) = Inr (Some ''Bearer u1-token'')"
     "validateJWT mockCollab (Some ''Bearer u1-token'') (jwtSecret mockConfig) = Inr ''u1''"
    by (simp_all add: mock_defs)
  have video: "getVideo mockCollab (db state0) ''vid-1'' = Inr (Some vid1)" "userID vid1 = ''u1''"
    by (simp_all add: mock_defs)
  have post: "req_method ?req = ''POST''" by (simp add: mock_defs)
  have form: "req_formData ?req = Inr [(''thumbnail'', FFile ?f)]"
     "formData_get [(''thumbnail'', FFile ?f)] ''thumbnail'' = Some (FFile ?f)"
    by (simp_all add: mock_defs formData_get_def)
  have size: "file_size ?f \<le> 10 * 2 ^ 20" by (simp add: file_size_def mock_defs)
  have type: "startsWith (file_type ?f) ''image/''" by (simp add: startsWith_def mock_defs)
  have persist: "fst (updateVideo mockCollab (db state0) ?v') = None" by (simp add: mock_defs)
  have up: "?out = (fst ?out, snd ?out)" by simp
  have get: "params_videoId ?greq = Some ''vid-1''"
    "getVideo mockCollab (db (snd ?out)) ''vid-1'' = Inr (Some ?v')"
    by (simp_all add: mock_defs model_defs)
  show ?thesis
    using upload_then_retrieve [OF vid auth video post form size type persist up get]
    by (simp add: mock_defs model_defs)
qed

subsection \<open>The order of the upload checks\<close>

text \<open>
  Claim C2, as stated: the checks run in the order identifier, authentication, verb, video
  existence, ownership, form, size, media type, so that a request that is not a POST gets
  the \<open>Method not allowed\<close> error before the video or its owner are looked at.
  The handler tests the verb after the ownership check: a GET for an unknown video by an
  authenticated user ends in \<open>NotFoundError\<close>, and a PUT by a user who does not own the
  video ends in \<open>UserForbiddenError\<close>.
\<close>

theorem method_check_first_counterexample:
  "req_method (createMockRequest ''no-such-video'' ''GET'' None ''u1-token'') \<noteq> ''POST''
   \<and> handlerUploadThumbnail mockCollab mockConfig
         (createMockRequest ''no-such-video'' ''GET'' None ''u1-token'') state0
       = (Inl (NotFoundError ''Couldn't find video''), state0)
   \<and> handlerUploadThumbnail mockCollab mockConfig
         (createMockRequest ''no-such-video'' ''GET'' None ''u1-token'') state0
       \<noteq> (Inl (BadRequestError ''Method not allowed''), state0)
   \<and> req_method (createMockRequest ''vid-1'' ''PUT'' None ''u2-token'') \<noteq> ''POST''
   \<and> handlerUploadThumbnail mockCollab mockConfig
         (createMockRequest ''vid-1'' ''PUT'' None ''u2-token'') state0
       = (Inl (UserForbiddenError ''You don't own this video''), state0)"
  by (simp add: mock_defs model_defs)

text \<open>
  Claim C2, amended: the first failing check wins in the order identifier non-empty,
  authentication (token, then its validation), video existence, ownership, verb is POST
  (else \<open>BadRequestError\<close> \<open>Method not allowed\<close>), form decoding and the
  \<open>thumbnail\<close> field being a file, size, media type; an upload that passes them all goes
  on to store the thumbnail. For a request that is not a POST the verb error is signalled
  once the video exists and the caller owns it, whatever the body holds.
\<close>

theorem upload_check_order:
  fixes c :: "'db collaborators" and s :: "'db state" and cfg :: ApiConfig and req :: BunRequest
  defines "H \<equiv> handlerUploadThumbnail c cfg req s"
  shows
   "(params_videoId req = None \<or> params_videoId req = Some [] \<longrightarrow>
       H = (Inl (BadRequestError ''Invalid video ID''), s)) \<and>
    (params_videoId req = Some vid \<and> vid \<noteq> [] \<longrightarrow>
      (\<forall>e. getBearerToken c (req_headers req) = Inl e \<longrightarrow> H = (Inl e, s)) \<and>
      (\<forall>tok. getBearerToken c (req_headers req) = Inr tok \<longrightarrow>
        (\<forall>e. validateJWT c tok (jwtSecret cfg) = Inl e \<longrightarrow> H = (Inl e, s)) \<and>
        (\<forall>uid. validateJWT c tok (jwtSecret cfg) = Inr uid \<longrightarrow>
          (\<forall>e. getVideo c (db s) vid = Inl e \<longrightarrow> H = (Inl (StoreError e), s)) \<and>
          (getVideo c (db s) vid = Inr None \<longrightarrow>
             H = (Inl (NotFoundError ''Couldn't find video''), s)) \<and>
          (\<forall>v. getVideo c (db s) vid = Inr (Some v) \<longrightarrow>
            (userID v \<noteq> uid \<longrightarrow>
               H = (Inl (UserForbiddenError ''You don't own this video''), s)) \<and>
            (userID v = uid \<longrightarrow>
              (req_method req \<noteq> ''POST'' \<longrightarrow>
                 H = (Inl (BadRequestError ''Method not allowed''), s)) \<and>
              (req_method req = ''POST'' \<longrightarrow>
                (\<forall>e. req_formData req = Inl e \<longrightarrow> H = (Inl (TypeError e), s)) \<and>
                (\<forall>fd. req_formData req = Inr fd \<longrightarrow>
                  (formData_get fd ''thumbnail'' = None \<or>
                   formData_get fd ''thumbnail'' = Some (FString []) \<longrightarrow>
                     H = (Inl (BadRequestError ''Missing thumbnail''), s)) \<and>
                  (\<forall>str. formData_get fd ''thumbnail'' = Some (FString str) \<and> str \<noteq> [] \<longrightarrow>
                     H = (Inl (BadRequestError ''Thumbnail must be a file''), s)) \<and>
                  (\<forall>f. formData_get fd ''thumbnail'' = Some (FFile f) \<longrightarrow>
                    (file_size f > 10 * 2 ^ 20 \<longrightarrow>
                       H = (Inl (BadRequestError ''File size exceeds 10MB limit''), s)) \<and>
                    (file_size f \<le> 10 * 2 ^ 20 \<longrightarrow>
                      (\<not> startsWith (file_type f) ''image/'' \<longrightarrow>
                         H = (Inl (BadRequestError ''Thumbnail must be an image file''), s)) \<and>
                      (startsWith (file_type f) ''image/'' \<longrightarrow>
                         H = storeThumbnail c cfg vid v f s))))))))))"
  unfolding H_def
  by (simp add: handlerUploadThumbnail_def postBranch_def MAX_UPLOAD_SIZE_value)


theorem upload_check_order_witness:
  "handlerUploadThumbnail mockCollab mockConfig
      (createMockRequest ''vid-1'' ''GET'' (Some (createPdfFile (replicate (10 * 2 ^ 20 + 1) 0))) ''u1-token'')
      state0
     = (Inl (BadRequestError ''Method not allowed''), state0)
   \<and> handlerUploadThumbnail mockCollab mockConfig
      (createMockRequest ''no-such-video'' ''GET'' None ''u1-token'') state0
     = (Inl (NotFoundError ''Couldn't find video''), state0)
   \<and> handlerUploadThumbnail mockCollab mockConfig
      (createMockRequest ''vid-1'' ''GET'' None ''u2-token'') state0
     = (Inl (UserForbiddenError ''You don't own this video''), state0)
   \<and> handlerUploadThumbnail mockCollab mockConfig
      (createMockRequest [] ''GET'' None ''expired'') state0
     = (Inl (BadRequestError ''Invalid video ID''), state0)
   \<and> handlerUploadThumbnail mockCollab mockConfig
      (createMockRequest ''no-such-video'' ''GET'' None ''expired'') state0
     = (Inl (UserNotAuthenticatedError ''Invalid token''), state0)
   \<and> handlerUploadThumbnail mockCollab mockConfig
      (createMockRequest ''vid-1'' ''POST'' (Some (createPdfFile (replicate (10 * 2 ^ 20 + 1) 0))) ''u1-token'')
      state0
     = (Inl (BadRequestError ''File size exceeds 10MB limit''), state0)
   \<and> handlerUploadThumbnail mockCollab mockConfig
      (createMockRequest ''vid-1'' ''POST'' (Some (createPdfFile (replicate 1024 0))) ''u1-token'')
      state0
     = (Inl (BadRequestError ''Thumbnail must be an image file''), state0)
   \<and> handlerUploadThumbnail mockCollab mockConfig
      (createMockRequest ''vid-1'' ''POST'' None ''u1-token'') state0
     = (Inl (BadRequestError ''Missing thumbnail''), state0)"
  using
    upload_check_order [where c = mockCollab and cfg = mockConfig and s = state0 and vid = "''vid-1''"
      and req = "createMockRequest ''vid-1'' ''GET''
                   (Some (createPdfFile (replicate (10 * 2 ^ 20 + 1) 0))) ''u1-token''"]
    upload_check_order [where c = mockCollab and cfg = mockConfig and s = state0
      and vid = "''no-such-video''"
      and req = "createMockRequest ''no-such-video'' ''GET'' None ''u1-token''"]
    upload_check_order [where c = mockCollab and cfg = mockConfig and s = state0 and vid = "''vid-1''"
      and req = "createMockRequest ''vid-1'' ''GET'' None ''u2-token''"]
    upload_check_order [where c = mockCollab and cfg = mockConfig and s = state0 and vid = "[]"
      and req = "createMockRequest [] ''GET'' None ''expired''"]
    upload_check_order [where c = mockCollab and cfg = mockConfig and s = state0
      and vid = "''no-such-video''"
      and req = "createMockRequest ''no-such-video'' ''GET'' None ''expired''"]
    upload_check_order [where c = mockCollab and cfg = mockConfig and s = state0 and vid = "''vid-1''"
      and req = "createMockRequest ''vid-1'' ''POST''
                   (Some (createPdfFile (replicate (10 * 2 ^ 20 + 1) 0))) ''u1-token''"]
    upload_check_order [where c = mockCollab and cfg = mockConfig and s = state0 and vid = "''vid-1''"
      and req = "createMockRequest ''vid-1'' ''POST''
                   (Some (createPdfFile (replicate 1024 0))) ''u1-token''"]
    upload_check_order [where c = mockCollab and cfg = mockConfig and s = state0 and vid = "''vid-1''"
      and req = "createMockRequest ''vid-1'' ''POST'' None ''u1-token''"]
  by (simp add: mock_defs formData_get_def file_size_def startsWith_def)

subsection \<open>The size check\<close>

text \<open>
  Claim C3. For an upload that reaches the size check (identifier, authentication, video,
  ownership, verb and form have passed, the \<open>thumbnail\<close> field being the file \<open>f\<close>),
  the handler fails with the size error, a \<open>BadRequestError\<close>, exactly when \<open>f\<close> has
  more than \<open>10 * 2^20\<close> bytes, whatever type \<open>f\<close> declares, and then leaves the
  state as it was. The limit is the constant \<open>MAX_UPLOAD_SIZE\<close>. A file of exactly
  \<open>10 * 2^20\<close> bytes passes: with an image type and a store that accepts the record
  the upload succeeds.
\<close>

theorem size_check:
  assumes "params_videoId req = Some vid" and "vid \<noteq> []"
    and "getBearerToken c (req_headers req) = Inr tok"
    and "validateJWT c tok (jwtSecret cfg) = Inr uid"
    and "getVideo c (db s) vid = Inr (Some v)" and "userID v = uid"
    and "req_method req = ''POST''"
    and "req_formData req = Inr fd" and "formData_get fd ''thumbnail'' = Some (FFile f)"
  shows "MAX_UPLOAD_SIZE = 10 * 2 ^ 20 \<and>
         (fst (handlerUploadThumbnail c cfg req s)
            = Inl (BadRequestError ''File size exceeds 10MB limit'')
          \<longleftrightarrow> file_size f > 10 * 2 ^ 20) \<and>
         (file_size f > 10 * 2 ^ 20 \<longrightarrow> snd (handlerUploadThumbnail c cfg req s) = s) \<and>
         (file_size f = 10 * 2 ^ 20 \<and> startsWith (file_type f) ''image/'' \<and>
          fst (updateVideo c (db s) (v\<lparr>thumbnailURL := Some (thumbnailURL_for cfg vid)\<rparr>)) = None
            \<longrightarrow> (\<exists>resp. fst (handlerUploadThumbnail c cfg req s) = Inr resp \<and> status resp = 200))"
proof -
  note step = upload_stored_step [OF assms]
  have a: "fst (handlerUploadThumbnail c cfg req s)
            = Inl (BadRequestError ''File size exceeds 10MB limit'')
          \<longleftrightarrow> file_size f > 10 * 2 ^ 20"
    by (simp add: step MAX_UPLOAD_SIZE_value storeThumbnail_result Let_def split: option.splits)
  have b: "file_size f > 10 * 2 ^ 20 \<longrightarrow> snd (handlerUploadThumbnail c cfg req s) = s"
    by (simp add: step MAX_UPLOAD_SIZE_value)
  have c: "file_size f = 10 * 2 ^ 20 \<and> startsWith (file_type f) ''image/'' \<and>
          fst (updateVideo c (db s) (v\<lparr>thumbnailURL := Some (thumbnailURL_for cfg vid)\<rparr>)) = None
            \<longrightarrow> (\<exists>resp. fst (handlerUploadThumbnail c cfg req s) = Inr resp \<and> status resp = 200)"
    by (simp add: step MAX_UPLOAD_SIZE_value storeThumbnail_result Let_def respondWithJSON_def)
  show ?thesis using a b c MAX_UPLOAD_SIZE_value by blast
qed

theorem size_check_witness:
  "fst (handlerUploadThumbnail mockCollab mockConfig
         (createMockRequest ''vid-1'' ''POST''
            (Some (createPdfFile (replicate (10 * 2 ^ 20 + 1) 0))) ''u1-token'') state0)
     = Inl (BadRequestError ''File size exceeds 10MB limit'')
   \<and> fst (handlerUploadThumbnail mockCollab mockConfig
         (createMockRequest ''vid-1'' ''POST''
            (Some (createPdfFile (replicate (10 * 2 ^ 20) 0))) ''u1-token'') state0)
     \<noteq> Inl (BadRequestError ''File size exceeds 10MB limit'')
   \<and> (\<exists>resp. fst (handlerUploadThumbnail mockCollab mockConfig
         (createMockRequest ''vid-1'' ''POST''
            (Some (createImageFile (replicate (10 * 2 ^ 20) 0))) ''u1-token'') state0) = Inr resp
         \<and> status resp = 200)"
proof -
  let ?big = "createPdfFile (replicate (10 * 2 ^ 20 + 1) 0)"
  let ?pdf = "createPdfFile (replicate (10 * 2 ^ 20) 0)"
  let ?png = "createImageFile (replicate (10 * 2 ^ 20) 0)"
  have reach:
    "params_videoId (createMockRequest ''vid-1'' ''POST'' (Some g) ''u1-token'') = Some ''vid-1''"
    "''vid-1'' \<noteq> []"
    "getBearerToken mockCollab (req_headers (createMockRequest ''vid-1'' ''POST'' (Some g) ''u1-token''))
       = Inr (Some ''Bearer u1-token'')"
    "validateJWT mockCollab (Some ''Bearer u1-token'') (jwtSecret mockConfig) = Inr ''u1''"
    "getVideo mockCollab (db state0) ''vid-1'' = Inr (Some vid1)"
    "userID vid1 = ''u1''"
    "req_method (createMockRequest ''vid-1'' ''POST'' (Some g) ''u1-token'') = ''POST''"
    "req_formData (createMockRequest ''vid-1'' ''POST'' (Some g) ''u1-token'')
       = Inr [(''thumbnail'', FFile g)]"
    "formData_get [(''thumbnail'', FFile g)] ''thumbnail'' = Some (FFile g)"
    for g
    by (simp_all add: mock_defs formData_get_def)
  have sizes: "file_size ?big > 10 * 2 ^ 20" "\<not> file_size ?pdf > 10 * 2 ^ 20"
    "file_size ?png = 10 * 2 ^ 20" "startsWith (file_type ?png) ''image/''"
    "fst (updateVideo mockCollab (db state0)
       (vid1\<lparr>thumbnailURL := Some (thumbnailURL_for mockConfig ''vid-1'')\<rparr>)) = None"
    by (simp_all add: mock_defs file_size_def startsWith_def)
  show ?thesis
    using size_check [where f = ?big, OF reach] size_check [where f = ?pdf, OF reach]
      size_check [where f = ?png, OF reach] sizes
    by blast
qed

subsection \<open>The media type check\<close>

text \<open>
  Claim C4. For an upload that reaches the checks on the file \<open>f\<close> and whose declared
  type does not start with \<open>image/\<close>, the handler fails with a \<open>BadRequestError\<close>
  whatever the size of \<open>f\<close>, and changes nothing; within the size limit the error is the
  media type error. The bytes of \<open>f\<close> are not looked at: the statement holds for every
  payload, and two files of the same declared type and length get the same outcome.
\<close>

theorem media_type_check:
  assumes "params_videoId req = Some vid" and "vid \<noteq> []"
    and "getBearerToken c (req_headers req) = Inr tok"
    and "validateJWT c tok (jwtSecret cfg) = Inr uid"
    and "getVideo c (db s) vid = Inr (Some v)" and "userID v = uid"
    and "req_method req = ''POST''"
    and "req_formData req = Inr fd" and "formData_get fd ''thumbnail'' = Some (FFile f)"
    and "\<not> startsWith (file_type f) ''image/''"
  shows "(\<exists>msg. handlerUploadThumbnail c cfg req s = (Inl (BadRequestError msg), s)) \<and>
         (file_size f \<le> 10 * 2 ^ 20 \<longrightarrow>
            handlerUploadThumbnail c cfg req s
              = (Inl (BadRequestError ''Thumbnail must be an image file''), s)) \<and>
         (\<forall>req' fd' bytes.
            params_videoId req' = Some vid \<and> req_headers req' = req_headers req \<and>
            req_method req' = ''POST'' \<and> req_formData req' = Inr fd' \<and>
            formData_get fd' ''thumbnail'' = Some (FFile (f\<lparr>file_data := bytes\<rparr>)) \<and>
            length bytes = file_size f
            \<longrightarrow> handlerUploadThumbnail c cfg req' s = handlerUploadThumbnail c cfg req s)"
proof -
  note step = upload_stored_step [OF assms(1-9)]
  have a: "\<exists>msg. handlerUploadThumbnail c cfg req s = (Inl (BadRequestError msg), s)"
    using assms(10) by (simp add: step)
  have b: "file_size f \<le> 10 * 2 ^ 20 \<longrightarrow>
            handlerUploadThumbnail c cfg req s
              = (Inl (BadRequestError ''Thumbnail must be an image file''), s)"
    using assms(10) by (simp add: step MAX_UPLOAD_SIZE_value)
  have c: "handlerUploadThumbnail c cfg req' s = handlerUploadThumbnail c cfg req s"
    if h: "params_videoId req' = Some vid" "req_headers req' = req_headers req"
      "req_method req' = ''POST''" "req_formData req' = Inr fd'"
      "formData_get fd' ''thumbnail'' = Some (FFile (f\<lparr>file_data := bytes\<rparr>))"
      "length bytes = file_size f"
    for req' fd' bytes
  proof -
    have tok': "getBearerToken c (req_headers req') = Inr tok" using assms(3) h(2) by simp
    note step' = upload_stored_step [OF h(1) assms(2) tok' assms(4,5,6) h(3,4,5)]
    show ?thesis using assms(10) h(6) by (simp add: step step' file_size_def)
  qed
  show ?thesis using a b c by blast
qed


theorem media_type_check_witness:
  "handlerUploadThumbnail mockCollab mockConfig
      (createMockRequest ''vid-1'' ''POST'' (Some (createPdfFile [0x89, 0x50, 0x4E, 0x47])) ''u1-token'')
      state0
     = (Inl (BadRequestError ''Thumbnail must be an image file''), state0)
   \<and> handlerUploadThumbnail mockCollab mockConfig
      (createMockRequest ''vid-1'' ''POST'' (Some (createPdfFile [0x25, 0x50, 0x44, 0x46])) ''u1-token'')
      state0
     = handlerUploadThumbnail mockCollab mockConfig
      (createMockRequest ''vid-1'' ''POST'' (Some (createPdfFile [0x89, 0x50, 0x4E, 0x47])) ''u1-token'')
      state0"
proof -
  let ?f = "createPdfFile [0x89, 0x50, 0x4E, 0x47]"
  let ?req = "createMockRequest ''vid-1'' ''POST'' (Some ?f) ''u1-token''"
  let ?req' = "createMockRequest ''vid-1'' ''POST'' (Some (createPdfFile [0x25, 0x50, 0x44, 0x46])) ''u1-token''"
  have reach:
    "params_videoId ?req = Some ''vid-1''"
    "''vid-1'' \<noteq> []"
    "getBearerToken mockCollab (req_headers ?req) = Inr (Some ''Bearer u1-token'')"
    "validateJWT mockCollab (Some ''Bearer u1-token'') (jwtSecret mockConfig) = Inr ''u1''"
    "getVideo mockCollab (db state0) ''vid-1'' = Inr (Some vid1)"
    "userID vid1 = ''u1''"
    "req_method ?req = ''POST''"
    "req_formData ?req = Inr [(''thumbnail'', FFile ?f)]"
    "formData_get [(''thumbnail'', FFile ?f)] ''thumbnail'' = Some (FFile ?f)"
    "\<not> startsWith (file_type ?f) ''image/''"
    by (simp_all add: mock_defs formData_get_def startsWith_def)
  have other:
    "params_videoId ?req' = Some ''vid-1'' \<and> req_headers ?req' = req_headers ?req \<and>
     req_method ?req' = ''POST'' \<and>
     req_formData ?req' = Inr [(''thumbnail'', FFile (?f\<lparr>file_data := [0x25, 0x50, 0x44, 0x46]\<rparr>))] \<and>
     formData_get [(''thumbnail'', FFile (?f\<lparr>file_data := [0x25, 0x50, 0x44, 0x46]\<rparr>))] ''thumbnail''
       = Some (FFile (?f\<lparr>file_data := [0x25, 0x50, 0x44, 0x46]\<rparr>)) \<and>
     length [0x25, 0x50, 0x44, 0x46 :: byte] = file_size ?f"
    "file_size ?f \<le> 10 * 2 ^ 20"
    by (simp_all add: mock_defs formData_get_def file_size_def)
  show ?thesis using media_type_check [OF reach] other by blast
qed

subsection \<open>Ownership\<close>

text \<open>
  Claim C5. When the authenticated user is not the owner of the video, the upload fails
  with \<open>UserForbiddenError\<close>, whatever the verb and the body of the request are, and
  the state (the thumbnail map and the database with the video record) is unchanged, so
  any retrieval afterwards answers as it would have before.
\<close>

theorem upload_not_owner:
  assumes "params_videoId req = Some vid" and "vid \<noteq> []"
    and "getBearerToken c (req_headers req) = Inr tok"
    and "validateJWT c tok (jwtSecret cfg) = Inr uid"
    and "getVideo c (db s) vid = Inr (Some v)" and "userID v \<noteq> uid"
  shows "handlerUploadThumbnail c cfg req s
           = (Inl (UserForbiddenError ''You don't own this video''), s) \<and>
         handlerGetThumbnail c cfg greq (snd (handlerUploadThumbnail c cfg req s))
           = handlerGetThumbnail c cfg greq s"
  by (simp add: upload_owner_step [OF assms(1-5)] assms(6))

theorem upload_not_owner_witness:
  "handlerUploadThumbnail mockCollab mockConfig
      (createMockRequest ''vid-1'' ''POST'' (Some (createImageFile (replicate 1024 0))) ''u2-token'')
      state0
     = (Inl (UserForbiddenError ''You don't own this video''), state0)
   \<and> handlerGetThumbnail mockCollab mockConfig (createMockRequest ''vid-1'' ''GET'' None [])
        (snd (handlerUploadThumbnail mockCollab mockConfig
          (createMockRequest ''vid-1'' ''POST'' (Some (createImageFile (replicate 1024 0))) ''u2-token'')
          state0))
     = handlerGetThumbnail mockCollab mockConfig (createMockRequest ''vid-1'' ''GET'' None []) state0"
proof -
  let ?req = "createMockRequest ''vid-1'' ''POST'' (Some (createImageFile (replicate 1024 0))) ''u2-token''"
  have reach:
    "params_videoId ?req = Some ''vid-1''"
    "''vid-1'' \<noteq> []"
    "getBearerToken mockCollab (req_headers ?req) = Inr (Some ''Bearer u2-token'')"
    "validateJWT mockCollab (Some ''Bearer u2-token'') (jwtSecret mockConfig) = Inr ''u2''"
    "getVideo mockCollab (db state0) ''vid-1'' = Inr (Some vid1)"
    "userID vid1 \<noteq> ''u2''"
    by (simp_all add: mock_defs)
  show ?thesis using upload_not_owner [OF reach] by blast
qed

subsection \<open>Overwriting\<close>

text \<open>
  Claim C6. After two successful uploads in a row for the same video identifier, the map
  holds under that identifier the payload and the declared type of the second file and
  nothing else: every successful retrieval for the identifier answers with exactly the
  second payload and its type, and a retrieval succeeds whenever the store knows the video.
\<close>

theorem second_upload_wins:
  assumes up1: "handlerUploadThumbnail c cfg req1 s0 = (Inr r1, s1)"
    and up2: "handlerUploadThumbnail c cfg req2 s1 = (Inr r2, s2)"
    and ids: "params_videoId req1 = Some vid" "params_videoId req2 = Some vid"
    and f2: "req_formData req2 = Inr fd2" "formData_get fd2 ''thumbnail'' = Some (FFile f2)"
  shows "videoThumbnails s2 vid = Some \<lparr>data = file_data f2, mediaType = file_type f2\<rparr> \<and>
         (\<forall>greq resp s3.
            params_videoId greq = Some vid \<and>
            handlerGetThumbnail c cfg greq s2 = (Inr resp, s3) \<longrightarrow>
              resp = \<lparr>status = 200,
                      resp_headers = [(''Content-Type'', file_type f2),
                                      (''Cache-Control'', ''no-store'')],
                      body = Bytes (file_data f2)\<rparr>) \<and>
         (\<forall>greq v.
            params_videoId greq = Some vid \<and> getVideo c (db s2) vid = Inr (Some v) \<longrightarrow>
              handlerGetThumbnail c cfg greq s2 =
                (Inr \<lparr>status = 200,
                      resp_headers = [(''Content-Type'', file_type f2),
                                      (''Cache-Control'', ''no-store'')],
                      body = Bytes (file_data f2)\<rparr>, s2))"
proof -
  from upload_success_shape [OF up2] ids(2) f2
  obtain v where ne: "vid \<noteq> []" and st: "(Inr r2, s2) = storeThumbnail c cfg vid v f2 s1"
    by auto
  have "s2 = snd (storeThumbnail c cfg vid v f2 s1)"
    using st by (metis snd_conv)
  then have m: "videoThumbnails s2 vid = Some \<lparr>data = file_data f2, mediaType = file_type f2\<rparr>"
    by (simp add: storeThumbnail_thumbnails)
  have a: "resp = \<lparr>status = 200,
                      resp_headers = [(''Content-Type'', file_type f2),
                                      (''Cache-Control'', ''no-store'')],
                      body = Bytes (file_data f2)\<rparr>"
    if "params_videoId greq = Some vid" "handlerGetThumbnail c cfg greq s2 = (Inr resp, s3)"
    for greq resp s3
    using get_success_shape [OF that(2)] that(1) m by auto
  have b: "handlerGetThumbnail c cfg greq s2 =
                (Inr \<lparr>status = 200,
                      resp_headers = [(''Content-Type'', file_type f2),
                                      (''Cache-Control'', ''no-store'')],
                      body = Bytes (file_data f2)\<rparr>, s2)"
    if "params_videoId greq = Some vid" "getVideo c (db s2) vid = Inr (Some v')"
    for greq v'
    using get_found [OF that(1) ne that(2) m] by simp
  show ?thesis using m a b by blast
qed

theorem second_upload_wins_witness:
  "handlerGetThumbnail mockCollab mockConfig (createMockRequest ''vid-1'' ''GET'' None [])
     (snd (handlerUploadThumbnail mockCollab mockConfig
        (createMockRequest ''vid-1'' ''POST''
           (Some \<lparr>file_name = ''second.jpg'', file_type = ''image/jpeg'',
                  file_data = replicate 2048 1\<rparr>) ''u1-token'')
        (snd (handlerUploadThumbnail mockCollab mockConfig
           (createMockRequest ''vid-1'' ''POST'' (Some (createImageFile (replicate 1024 0)))
              ''u1-token'')
           state0))))
   = (Inr \<lparr>status = 200,
           resp_headers = [(''Content-Type'', ''image/jpeg''), (''Cache-Control'', ''no-store'')],
           body = Bytes (replicate 2048 1)\<rparr>,
      snd (handlerUploadThumbnail mockCollab mockConfig
        (createMockRequest ''vid-1'' ''POST''
           (Some \<lparr>file_name = ''second.jpg'', file_type = ''image/jpeg'',
                  file_data = replicate 2048 1\<rparr>) ''u1-token'')
        (snd (handlerUploadThumbnail mockCollab mockConfig
           (createMockRequest ''vid-1'' ''POST'' (Some (createImageFile (replicate 1024 0)))
              ''u1-token'')
           state0))))"
proof -
  let ?f2 = "\<lparr>file_name = ''second.jpg'', file_type = ''image/jpeg'', file_data = replicate 2048 1\<rparr>"
  let ?req1 = "createMockRequest ''vid-1'' ''POST'' (Some (createImageFile (replicate 1024 0))) ''u1-token''"
  let ?req2 = "createMockRequest ''vid-1'' ''POST'' (Some ?f2) ''u1-token''"
  let ?greq = "createMockRequest ''vid-1'' ''GET'' None []"
  let ?v' = "vid1\<lparr>thumbnailURL := Some ''http://localhost:8091/upload/thumbnails/vid-1''\<rparr>"
  let ?s1 = "snd (handlerUploadThumbnail mockCollab mockConfig ?req1 state0)"
  let ?s2 = "snd (handlerUploadThumbnail mockCollab mockConfig ?req2 ?s1)"
  have up1: "handlerUploadThumbnail mockCollab mockConfig ?req1 state0
               = (Inr (respondWithJSON 200 ?v'), ?s1)"
    by (simp add: mock_defs model_defs)
  have up2: "handlerUploadThumbnail mockCollab mockConfig ?req2 ?s1
               = (Inr (respondWithJSON 200 ?v'), ?s2)"
    by (simp add: mock_defs model_defs)
  have ids: "params_videoId ?req1 = Some ''vid-1''" "params_videoId ?req2 = Some ''vid-1''"
    by (simp_all add: mock_defs)
  have f2: "req_formData ?req2 = Inr [(''thumbnail'', FFile ?f2)]"
    "formData_get [(''thumbnail'', FFile ?f2)] ''thumbnail'' = Some (FFile ?f2)"
    by (simp_all add: mock_defs formData_get_def)
  have g: "params_videoId ?greq = Some ''vid-1'' \<and>
           getVideo mockCollab (db ?s2) ''vid-1'' = Inr (Some ?v')"
    by (simp add: mock_defs model_defs)
  show ?thesis using second_upload_wins [OF up1 up2 ids f2] g by auto
qed

subsection \<open>Retrieval errors\<close>

text \<open>
  Claim C7. A retrieval with an empty (or absent) identifier fails with
  \<open>BadRequestError\<close>. With a non-empty identifier it fails with \<open>NotFoundError\<close>
  both when the store has no such video and when the video exists and the map has no
  thumbnail for it; the two cases carry the same error class and differ in the message.
\<close>

theorem retrieve_errors:
  "(params_videoId req = None \<or> params_videoId req = Some [] \<longrightarrow>
      handlerGetThumbnail c cfg req s = (Inl (BadRequestError ''Invalid video ID''), s)) \<and>
   (params_videoId req = Some vid \<and> vid \<noteq> [] \<and> getVideo c (db s) vid = Inr None \<longrightarrow>
      handlerGetThumbnail c cfg req s = (Inl (NotFoundError ''Couldn't find video''), s)) \<and>
   (params_videoId req = Some vid \<and> vid \<noteq> [] \<and> getVideo c (db s) vid = Inr (Some v) \<and>
    videoThumbnails s vid = None \<longrightarrow>
      handlerGetThumbnail c cfg req s = (Inl (NotFoundError ''Thumbnail not found''), s)) \<and>
   ''Couldn't find video'' \<noteq> ''Thumbnail not found''"
  by (auto simp: handlerGetThumbnail_def)

theorem retrieve_errors_witness:
  "handlerGetThumbnail mockCollab mockConfig (createMockRequest [] ''GET'' None []) state0
     = (Inl (BadRequestError ''Invalid video ID''), state0)
   \<and> handlerGetThumbnail mockCollab mockConfig
       (createMockRequest ''non-existent-video'' ''GET'' None []) state0
     = (Inl (NotFoundError ''Couldn't find video''), state0)
   \<and> handlerGetThumbnail mockCollab mockConfig (createMockRequest ''vid-1'' ''GET'' None []) state0
     = (Inl (NotFoundError ''Thumbnail not found''), state0)"
  using
    retrieve_errors [where c = mockCollab and cfg = mockConfig and s = state0
      and req = "createMockRequest [] ''GET'' None []"]
    retrieve_errors [where c = mockCollab and cfg = mockConfig and s = state0
      and vid = "''non-existent-video''"
      and req = "createMockRequest ''non-existent-video'' ''GET'' None []"]
    retrieve_errors [where c = mockCollab and cfg = mockConfig and s = state0
      and vid = "''vid-1''" and v = vid1
      and req = "createMockRequest ''vid-1'' ''GET'' None []"]
  by (simp add: mock_defs)

subsection \<open>The response of a successful upload\<close>

text \<open>
  Claim C8. Whenever an upload succeeds, the video record \<open>v\<close> fetched for the request's
  identifier gets as \<open>thumbnailURL\<close> the text \<open>http://localhost:\<close>, the configured
  port, \<open>/upload/thumbnails/\<close> and the identifier; that record is what
  \<open>updateVideo\<close> was given (and accepted, leaving the database of the final state), and
  it is the body of the response, whose status is 200.
\<close>

theorem upload_success_response:
  assumes "handlerUploadThumbnail c cfg req s = (Inr resp, s')"
  shows "\<exists>vid v. params_videoId req = Some vid \<and> vid \<noteq> [] \<and>
           getVideo c (db s) vid = Inr (Some v) \<and>
           updateVideo c (db s)
             (v\<lparr>thumbnailURL :=
                  Some (''http://localhost:'' @ port_text (port cfg) @ ''/upload/thumbnails/'' @ vid)\<rparr>)
             = (None, db s') \<and>
           resp = respondWithJSON 200
             (v\<lparr>thumbnailURL :=
                  Some (''http://localhost:'' @ port_text (port cfg) @ ''/upload/thumbnails/'' @ vid)\<rparr>) \<and>
           status resp = 200 \<and>
           body resp = Json
             (v\<lparr>thumbnailURL :=
                  Some (''http://localhost:'' @ port_text (port cfg) @ ''/upload/thumbnails/'' @ vid)\<rparr>)"
proof -
  from upload_success_shape [OF assms]
  obtain vid v f where ne: "params_videoId req = Some vid" "vid \<noteq> []"
    and gv: "getVideo c (db s) vid = Inr (Some v)"
    and st: "(Inr resp, s') = storeThumbnail c cfg vid v f s"
    by blast
  let ?v' = "v\<lparr>thumbnailURL :=
      Some (''http://localhost:'' @ port_text (port cfg) @ ''/upload/thumbnails/'' @ vid)\<rparr>"
  from st have "updateVideo c (db s) ?v' = (None, db s') \<and> resp = respondWithJSON 200 ?v'"
    by (auto simp: storeThumbnail_def arrayBuffer_def thumbnailURL_for_def Let_def
        split: prod.splits option.splits)
  then show ?thesis using ne gv by (auto simp: respondWithJSON_def)
qed

theorem upload_success_response_witness:
  "updateVideo mockCollab (db state0)
      (vid1\<lparr>thumbnailURL := Some ''http://localhost:8091/upload/thumbnails/vid-1''\<rparr>)
     = (None, db (snd (handlerUploadThumbnail mockCollab mockConfig
          (createMockRequest ''vid-1'' ''POST'' (Some (createImageFile (replicate 1024 0))) ''u1-token'')
          state0)))
   \<and> status (respondWithJSON 200
        (vid1\<lparr>thumbnailURL := Some ''http://localhost:8091/upload/thumbnails/vid-1''\<rparr>)) = 200
   \<and> body (respondWithJSON 200
        (vid1\<lparr>thumbnailURL := Some ''http://localhost:8091/upload/thumbnails/vid-1''\<rparr>))
     = Json (vid1\<lparr>thumbnailURL := Some ''http://localhost:8091/upload/thumbnails/vid-1''\<rparr>)"
proof -
  let ?req = "createMockRequest ''vid-1'' ''POST'' (Some (createImageFile (replicate 1024 0))) ''u1-token''"
  let ?v' = "vid1\<lparr>thumbnailURL := Some ''http://localhost:8091/upload/thumbnails/vid-1''\<rparr>"
  have up: "handlerUploadThumbnail mockCollab mockConfig ?req state0
      = (Inr (respondWithJSON 200 ?v'), snd (handlerUploadThumbnail mockCollab mockConfig ?req state0))"
    by (simp add: mock_defs model_defs)
  have ev: "params_videoId ?req = Some ''vid-1''"
    "getVideo mockCollab (db state0) ''vid-1'' = Inr (Some vid1)"
    "port_text (port mockConfig) = ''8091''"
    by (simp_all add: mock_defs digit_char_def)
  from upload_success_response [OF up] show ?thesis
    using ev by auto
qed

subsection \<open>What the handlers leave alone\<close>

text \<open>
  Claim C9. An upload under an identifier leaves the map entry of every other identifier
  \<open>B\<close> as it was (present with the same payload and type, or absent), whether the upload
  succeeds or fails; a retrieval returns the state it was given.
\<close>

theorem thumbnails_frame:
  "(params_videoId req \<noteq> Some B \<longrightarrow>
      videoThumbnails (snd (handlerUploadThumbnail c cfg req s)) B = videoThumbnails s B) \<and>
   snd (handlerGetThumbnail c cfg req s) = s"
  by (simp add: upload_thumbnails_frame get_state)

theorem thumbnails_frame_witness:
  "videoThumbnails (snd (handlerUploadThumbnail mockCollab mockConfig
       (createMockRequest ''vid-1'' ''POST'' (Some (createImageFile (replicate 1024 0))) ''u1-token'')
       (state0\<lparr>videoThumbnails := [''vid-2'' \<mapsto> \<lparr>data = [1, 2, 3], mediaType = ''image/gif''\<rparr>]\<rparr>)))
     ''vid-2''
   = Some \<lparr>data = [1, 2, 3], mediaType = ''image/gif''\<rparr>
   \<and> videoThumbnails (snd (handlerUploadThumbnail mockCollab mockConfig
       (createMockRequest ''vid-1'' ''POST'' (Some (createImageFile (replicate 1024 0))) ''u1-token'')
       state0)) ''vid-2''
   = None"
  using
    thumbnails_frame [where c = mockCollab and cfg = mockConfig and B = "''vid-2''"
      and s = "state0\<lparr>videoThumbnails := [''vid-2'' \<mapsto> \<lparr>data = [1, 2, 3], mediaType = ''image/gif''\<rparr>]\<rparr>"
      and req = "createMockRequest ''vid-1'' ''POST'' (Some (createImageFile (replicate 1024 0))) ''u1-token''"]
    thumbnails_frame [where c = mockCollab and cfg = mockConfig and B = "''vid-2''"
      and s = state0
      and req = "createMockRequest ''vid-1'' ''POST'' (Some (createImageFile (replicate 1024 0))) ''u1-token''"]
  by (simp add: createMockRequest_def state0_def)

subsection \<open>A failing store write\<close>

text \<open>
  Claim C10. For an upload that passes every check, the map is written before
  \<open>updateVideo\<close> is called. When \<open>updateVideo\<close> throws \<open>e\<close>, the handler ends with
  that error, and the state it leaves has the new thumbnail under the identifier: nothing
  takes the map write back, and a retrieval afterwards, the store knowing the video,
  answers with the new payload and type.
\<close>

theorem persist_failure_keeps_thumbnail:
  assumes "params_videoId req = Some vid" and "vid \<noteq> []"
    and "getBearerToken c (req_headers req) = Inr tok"
    and "validateJWT c tok (jwtSecret cfg) = Inr uid"
    and "getVideo c (db s) vid = Inr (Some v)" and "userID v = uid"
    and "req_method req = ''POST''"
    and "req_formData req = Inr fd" and "formData_get fd ''thumbnail'' = Some (FFile f)"
    and size: "file_size f \<le> 10 * 2 ^ 20"
    and type: "startsWith (file_type f) ''image/''"
    and fail:
      "fst (updateVideo c (db s) (v\<lparr>thumbnailURL := Some (thumbnailURL_for cfg vid)\<rparr>)) = Some e"
  shows "fst (handlerUploadThumbnail c cfg req s) = Inl (StoreError e) \<and>
         videoThumbnails (snd (handlerUploadThumbnail c cfg req s))
           = (videoThumbnails s)(vid \<mapsto> \<lparr>data = file_data f, mediaType = file_type f\<rparr>) \<and>
         (\<forall>greq v'.
            params_videoId greq = Some vid \<and>
            getVideo c (db (snd (handlerUploadThumbnail c cfg req s))) vid = Inr (Some v') \<longrightarrow>
              fst (handlerGetThumbnail c cfg greq (snd (handlerUploadThumbnail c cfg req s)))
                = Inr \<lparr>status = 200,
                       resp_headers = [(''Content-Type'', file_type f),
                                       (''Cache-Control'', ''no-store'')],
                       body = Bytes (file_data f)\<rparr>)"
proof -
  let ?out = "handlerUploadThumbnail c cfg req s"
  have step: "?out = storeThumbnail c cfg vid v f s"
    using size type by (simp add: upload_stored_step [OF assms(1-9)] MAX_UPLOAD_SIZE_value)
  have a: "fst ?out = Inl (StoreError e)"
    using fail by (simp add: step storeThumbnail_result Let_def)
  have m: "videoThumbnails (snd ?out)
           = (videoThumbnails s)(vid \<mapsto> \<lparr>data = file_data f, mediaType = file_type f\<rparr>)"
    by (simp add: step storeThumbnail_thumbnails)
  have g: "fst (handlerGetThumbnail c cfg greq (snd ?out))
                = Inr \<lparr>status = 200,
                       resp_headers = [(''Content-Type'', file_type f),
                                       (''Cache-Control'', ''no-store'')],
                       body = Bytes (file_data f)\<rparr>"
    if "params_videoId greq = Some vid" "getVideo c (db (snd ?out)) vid = Inr (Some v')"
    for greq v'
  proof -
    have "videoThumbnails (snd ?out) vid = Some \<lparr>data = file_data f, mediaType = file_type f\<rparr>"
      by (simp add: m)
    from get_found [OF that(1) assms(2) that(2) this] show ?thesis by simp
  qed
  show ?thesis using a m g by blast
qed

theorem persist_failure_keeps_thumbnail_witness:
  "fst (handlerUploadThumbnail failingStore mockConfig
          (createMockRequest ''vid-1'' ''POST'' (Some (createImageFile [7, 7, 7])) ''u1-token'') state0)
     = Inl (StoreError ''database is locked'')
   \<and> videoThumbnails (snd (handlerUploadThumbnail failingStore mockConfig
          (createMockRequest ''vid-1'' ''POST'' (Some (createImageFile [7, 7, 7])) ''u1-token'') state0))
     = [''vid-1'' \<mapsto> \<lparr>data = [7, 7, 7], mediaType = ''image/png''\<rparr>]
   \<and> fst (handlerGetThumbnail failingStore mockConfig (createMockRequest ''vid-1'' ''GET'' None [])
        (snd (handlerUploadThumbnail failingStore mockConfig
          (createMockRequest ''vid-1'' ''POST'' (Some (createImageFile [7, 7, 7])) ''u1-token'') state0)))
     = Inr \<lparr>status = 200,
            resp_headers = [(''Content-Type'', ''image/png''), (''Cache-Control'', ''no-store'')],
            body = Bytes [7, 7, 7]\<rparr>"
proof -
  let ?f = "createImageFile [7, 7, 7]"
  let ?req = "createMockRequest ''vid-1'' ''POST'' (Some ?f) ''u1-token''"
  let ?greq = "createMockRequest ''vid-1'' ''GET'' None []"
  have reach:
    "params_videoId ?req = Some ''vid-1''"
    "''vid-1'' \<noteq> []"
    "getBearerToken failingStore (req_headers ?req) = Inr (Some ''Bearer u1-token'')"
    "validateJWT failingStore (Some ''Bearer u1-token'') (jwtSecret mockConfig) = Inr ''u1''"
    "getVideo failingStore (db state0) ''vid-1'' = Inr (Some vid1)"
    "userID vid1 = ''u1''"
    "req_method ?req = ''POST''"
    "req_formData ?req = Inr [(''thumbnail'', FFile ?f)]"
    "formData_get [(''thumbnail'', FFile ?f)] ''thumbnail'' = Some (FFile ?f)"
    "file_size ?f \<le> 10 * 2 ^ 20"
    "startsWith (file_type ?f) ''image/''"
    "fst (updateVideo failingStore (db state0)
       (vid1\<lparr>thumbnailURL := Some (thumbnailURL_for mockConfig ''vid-1'')\<rparr>))
       = Some ''database is locked''"
    by (simp_all add: mock_defs formData_get_def file_size_def startsWith_def)
  have g: "params_videoId ?greq = Some ''vid-1'' \<and>
     getVideo failingStore (db (snd (handlerUploadThumbnail failingStore mockConfig ?req state0)))
       ''vid-1'' = Inr (Some vid1)"
    by (simp add: mock_defs model_defs)
  have d: "file_data ?f = [7, 7, 7]" "file_type ?f = ''image/png''"
    "videoThumbnails state0 = Map.empty"
    by (simp_all add: mock_defs)
  show ?thesis using persist_failure_keeps_thumbnail [OF reach] g d by auto
qed

end
